theory Spec2Isabelle
  imports Main "HOL-Library.AList" "HOL-Library.Multiset"
begin

section \<open>Data model (shared/schema.ts)\<close>

text \<open>
  Timestamps are JavaScript \<^verbatim>\<open>Date\<close> values, compared through their epoch
  milliseconds, so a timestamp is an \<^typ>\<open>int\<close>. A text column is a \<^typ>\<open>string\<close>;
  the nullable column \<^verbatim>\<open>assigned_to\<close> is a \<^typ>\<open>string option\<close> with
  \<^term>\<open>None\<close> for \<^verbatim>\<open>null\<close>. The identifier field is called \<open>iid\<close>
  (\<open>cid\<close> for comments) because \<open>id\<close> is the identity function of HOL, and the
  created-at field of a comment is \<open>commentCreatedAt\<close> because record fields share
  one name space.
\<close>

type_synonym timestamp = int

record issue =
  iid :: string
  title :: string
  description :: string
  customerName :: string
  customerEmail :: string
  priority :: string
  status :: string
  assignedTo :: "string option"
  createdAt :: timestamp
  updatedAt :: timestamp

record comment =
  cid :: string
  issueId :: string
  author :: string
  content :: string
  isInternal :: string
  commentCreatedAt :: timestamp

text \<open>
  \<^verbatim>\<open>InsertIssue\<close> is what \<^verbatim>\<open>insertIssueSchema\<close> infers: the four
  \<^verbatim>\<open>notNull\<close> columns without default are required strings, the columns with a
  default (\<^verbatim>\<open>priority\<close>, \<^verbatim>\<open>status\<close>) are optional strings, and the nullable
  column \<^verbatim>\<open>assignedTo\<close> is optional and nullable: \<^term>\<open>None\<close> is an absent key,
  \<^term>\<open>Some None\<close> an explicit \<^verbatim>\<open>null\<close>.
\<close>

record insertIssue =
  ins_title :: string
  ins_description :: string
  ins_customerName :: string
  ins_customerEmail :: string
  ins_priority :: "string option"
  ins_status :: "string option"
  ins_assignedTo :: "string option option"

text \<open>
  \<^verbatim>\<open>Partial<InsertIssue>\<close>: every key is either absent (\<^term>\<open>None\<close>) or carries
  a value of the type the key has in \<^verbatim>\<open>InsertIssue\<close>. A key that is present
  with the value \<^verbatim>\<open>undefined\<close> is not represented: the one caller passes a
  decoded JSON body, and JSON has no \<^verbatim>\<open>undefined\<close>.
\<close>

record partialInsertIssue =
  upd_title :: "string option"
  upd_description :: "string option"
  upd_customerName :: "string option"
  upd_customerEmail :: "string option"
  upd_priority :: "string option"
  upd_status :: "string option"
  upd_assignedTo :: "string option option"

record insertComment =
  insc_issueId :: string
  insc_author :: string
  insc_content :: string
  insc_isInternal :: "string option"

section \<open>The in-memory store (server/storage.ts, class MemStorage)\<close>

text \<open>
  A JavaScript \<^verbatim>\<open>Map\<close> iterates in insertion order, and \<^verbatim>\<open>set\<close> on a key
  that is present replaces the value where it stands. That is an association list with
  \<^const>\<open>AList.update\<close> for \<^verbatim>\<open>set\<close>, \<^const>\<open>map_of\<close> for \<^verbatim>\<open>get\<close>
  and \<^term>\<open>map snd\<close> for \<^verbatim>\<open>Array.from(m.values())\<close>. The \<^verbatim>\<open>users\<close>
  map is left out: no operation on issues or comments reads or writes it.

  The second realisation, \<^verbatim>\<open>DatabaseStorage\<close>, hands every operation to
  PostgreSQL through an object-relational mapper; of it, the parts that the source
  computes itself are modelled: the defaults of \<^verbatim>\<open>createIssue\<close> and the
  counting of \<^verbatim>\<open>getIssueStats\<close>.
\<close>

record memStorage =
  issues :: "(string \<times> issue) list"
  comments :: "(string \<times> comment) list"

definition emptyStorage :: memStorage where
  "emptyStorage = \<lparr>issues = [], comments = []\<rparr>"

text \<open>
  \<^verbatim>\<open>v || d\<close> on an optional string: \<^verbatim>\<open>undefined\<close> and the empty string
  are both falsy.
\<close>

definition or_default :: "string option \<Rightarrow> string \<Rightarrow> string" where
  "or_default v d = (case v of None \<Rightarrow> d | Some s \<Rightarrow> if s = [] then d else s)"

text \<open>\<^verbatim>\<open>v || null\<close> on an optional, nullable string.\<close>

definition or_null :: "string option option \<Rightarrow> string option" where
  "or_null v =
     (case v of
        None \<Rightarrow> None
      | Some None \<Rightarrow> None
      | Some (Some s) \<Rightarrow> if s = [] then None else Some s)"

definition getIssue :: "memStorage \<Rightarrow> string \<Rightarrow> issue option" where
  "getIssue s k = map_of (issues s) k"

text \<open>
  \<^verbatim>\<open>createIssue\<close>: the identifier \<open>uuid\<close> is what \<^verbatim>\<open>randomUUID()\<close>
  returned and \<open>now\<close> what \<^verbatim>\<open>new Date()\<close> returned.
\<close>

definition createIssue :: "memStorage \<Rightarrow> string \<Rightarrow> timestamp \<Rightarrow> insertIssue \<Rightarrow> issue \<times> memStorage" where
  "createIssue s uuid now ins =
     (let issue =
        \<lparr>iid = uuid,
         title = ins_title ins,
         description = ins_description ins,
         customerName = ins_customerName ins,
         customerEmail = ins_customerEmail ins,
         priority = or_default (ins_priority ins) ''medium'',
         status = or_default (ins_status ins) ''open'',
         assignedTo = or_null (ins_assignedTo ins),
         createdAt = now,
         updatedAt = now\<rparr>
      in (issue, s\<lparr>issues := AList.update uuid issue (issues s)\<rparr>))"

text \<open>
  The object \<^verbatim>\<open>issueData\<close> that \<^verbatim>\<open>DatabaseStorage.createIssue\<close> hands to
  the database: the same three defaults; identifier and timestamps are left to the
  column defaults of the database.
\<close>

definition issueData :: "insertIssue \<Rightarrow> string \<times> string \<times> string option" where
  "issueData ins =
     (or_default (ins_status ins) ''open'',
      or_default (ins_priority ins) ''medium'',
      or_null (ins_assignedTo ins))"

text \<open>The spread \<^verbatim>\<open>{ ...issue, ...updates }\<close>, one key at a time.\<close>

definition spread_key :: "'a option \<Rightarrow> 'a \<Rightarrow> 'a" where
  "spread_key u old = (case u of None \<Rightarrow> old | Some v \<Rightarrow> v)"

definition updateIssue :: "memStorage \<Rightarrow> timestamp \<Rightarrow> string \<Rightarrow> partialInsertIssue \<Rightarrow> issue option \<times> memStorage" where
  "updateIssue s now k updates =
     (case map_of (issues s) k of
        None \<Rightarrow> (None, s)
      | Some issue \<Rightarrow>
          (let updatedIssue = issue
             \<lparr>title := spread_key (upd_title updates) (title issue),
              description := spread_key (upd_description updates) (description issue),
              customerName := spread_key (upd_customerName updates) (customerName issue),
              customerEmail := spread_key (upd_customerEmail updates) (customerEmail issue),
              priority := spread_key (upd_priority updates) (priority issue),
              status := spread_key (upd_status updates) (status issue),
              assignedTo := spread_key (upd_assignedTo updates) (assignedTo issue),
              updatedAt := now\<rparr>
           in (Some updatedIssue, s\<lparr>issues := AList.update k updatedIssue (issues s)\<rparr>)))"

text \<open>
  \<^verbatim>\<open>Array.prototype.sort\<close> is stable and the comparator is the difference of
  the epoch milliseconds, so the sort is the stable sort on the created-at key.
\<close>

definition getCommentsByIssueId :: "memStorage \<Rightarrow> string \<Rightarrow> comment list" where
  "getCommentsByIssueId s k =
     sort_key commentCreatedAt (filter (\<lambda>c. issueId c = k) (map snd (comments s)))"

definition createComment :: "memStorage \<Rightarrow> string \<Rightarrow> timestamp \<Rightarrow> insertComment \<Rightarrow> comment \<times> memStorage" where
  "createComment s uuid now ins =
     (let comment =
        \<lparr>cid = uuid,
         issueId = insc_issueId ins,
         author = insc_author ins,
         content = insc_content ins,
         isInternal = or_default (insc_isInternal ins) ''false'',
         commentCreatedAt = now\<rparr>
      in (comment, s\<lparr>comments := AList.update uuid comment (comments s)\<rparr>))"

subsection \<open>Statistics\<close>







section \<open>Request bodies and their validation (shared/schema.ts)\<close>

text \<open>
  A request body is a parsed JSON value. An object is the list of its properties in
  their order; \<^const>\<open>map_of\<close> reads a property, and a key that is not there reads
  as \<^verbatim>\<open>undefined\<close>, which is \<^term>\<open>None\<close>.
\<close>

datatype json =
    JNull
  | JBool bool
  | JNum int
  | JStr string
  | JArr "json list"
  | JObj "(string \<times> json) list"

definition digit_char :: "nat \<Rightarrow> char" where
  "digit_char d = char_of (48 + d)"

fun index_key :: "nat \<Rightarrow> string" where
  "index_key n = (if n < 10 then [digit_char n] else index_key (n div 10) @ [digit_char (n mod 10)])"

declare index_key.simps [simp del]

text \<open>
  The own enumerable properties that an object spread \<^verbatim>\<open>{ ...v }\<close> copies: the
  properties of an object, the indices of an array or of a string, nothing for the
  other primitives.
\<close>

fun own_props :: "json \<Rightarrow> (string \<times> json) list" where
  "own_props (JObj kvs) = kvs"
| "own_props (JArr xs) = zip (map index_key [0..<length xs]) xs"
| "own_props (JStr str) = zip (map index_key [0..<length str]) (map (\<lambda>c. JStr [c]) str)"
| "own_props JNull = []"
| "own_props (JBool b) = []"
| "own_props (JNum n) = []"

text \<open>
  The schemas are derived from the table declarations by \<^verbatim>\<open>createInsertSchema\<close>:
  a text or varchar column is \<^verbatim>\<open>z.string()\<close>; a column with a default is
  \<^verbatim>\<open>.optional()\<close>; a nullable column is \<^verbatim>\<open>.nullable().optional()\<close>; the
  omitted keys are not part of the schema; an object schema drops the keys it does not
  know. No column declares an enumeration. \<^verbatim>\<open>parse\<close> throws a
  \<^verbatim>\<open>ZodError\<close> that carries one issue per offending key, in the order of the
  keys of the schema.
\<close>

datatype zod_issue = InvalidType (path: "string list") (expected: string) (received: string)

fun parsedType :: "json option \<Rightarrow> string" where
  "parsedType None = ''undefined''"
| "parsedType (Some JNull) = ''null''"
| "parsedType (Some (JBool b)) = ''boolean''"
| "parsedType (Some (JNum n)) = ''number''"
| "parsedType (Some (JStr str)) = ''string''"
| "parsedType (Some (JArr xs)) = ''array''"
| "parsedType (Some (JObj kvs)) = ''object''"

definition zString :: "string \<Rightarrow> json option \<Rightarrow> zod_issue list" where
  "zString key v =
     (case v of Some (JStr str) \<Rightarrow> [] | _ \<Rightarrow> [InvalidType [key] ''string'' (parsedType v)])"

definition zStringOptional :: "string \<Rightarrow> json option \<Rightarrow> zod_issue list" where
  "zStringOptional key v = (case v of None \<Rightarrow> [] | Some j \<Rightarrow> zString key v)"

definition zStringNullableOptional :: "string \<Rightarrow> json option \<Rightarrow> zod_issue list" where
  "zStringNullableOptional key v =
     (case v of None \<Rightarrow> [] | Some JNull \<Rightarrow> [] | Some j \<Rightarrow> zString key v)"

text \<open>The parsed value of a key that passed its check.\<close>

fun stringOf :: "json option \<Rightarrow> string" where
  "stringOf (Some (JStr str)) = str"
| "stringOf _ = []"

fun optionalStringOf :: "json option \<Rightarrow> string option" where
  "optionalStringOf (Some (JStr str)) = Some str"
| "optionalStringOf _ = None"

fun nullableOptionalStringOf :: "json option \<Rightarrow> string option option" where
  "nullableOptionalStringOf (Some (JStr str)) = Some (Some str)"
| "nullableOptionalStringOf (Some JNull) = Some None"
| "nullableOptionalStringOf _ = None"

text \<open>
  What a key of a body holds, for stating which bodies a schema accepts.
\<close>

fun isString :: "json option \<Rightarrow> bool" where
  "isString (Some (JStr str)) = True"
| "isString _ = False"

fun isNull :: "json option \<Rightarrow> bool" where
  "isNull (Some JNull) = True"
| "isNull _ = False"

definition insertIssueSchema_parse :: "json \<Rightarrow> zod_issue list + insertIssue" where
  "insertIssueSchema_parse body =
     (case body of
        JObj kvs \<Rightarrow>
          (let get = map_of kvs;
               errs = zString ''title'' (get ''title'')
                    @ zString ''description'' (get ''description'')
                    @ zString ''customerName'' (get ''customerName'')
                    @ zString ''customerEmail'' (get ''customerEmail'')
                    @ zStringOptional ''priority'' (get ''priority'')
                    @ zStringOptional ''status'' (get ''status'')
                    @ zStringNullableOptional ''assignedTo'' (get ''assignedTo'')
           in if errs = [] then
                Inr \<lparr>ins_title = stringOf (get ''title''),
                     ins_description = stringOf (get ''description''),
                     ins_customerName = stringOf (get ''customerName''),
                     ins_customerEmail = stringOf (get ''customerEmail''),
                     ins_priority = optionalStringOf (get ''priority''),
                     ins_status = optionalStringOf (get ''status''),
                     ins_assignedTo = nullableOptionalStringOf (get ''assignedTo'')\<rparr>
              else Inl errs)
      | _ \<Rightarrow> Inl [InvalidType [] ''object'' (parsedType (Some body))])"

definition insertCommentSchema_parse :: "json \<Rightarrow> zod_issue list + insertComment" where
  "insertCommentSchema_parse body =
     (case body of
        JObj kvs \<Rightarrow>
          (let get = map_of kvs;
               errs = zString ''issueId'' (get ''issueId'')
                    @ zString ''author'' (get ''author'')
                    @ zString ''content'' (get ''content'')
                    @ zStringOptional ''isInternal'' (get ''isInternal'')
           in if errs = [] then
                Inr \<lparr>insc_issueId = stringOf (get ''issueId''),
                     insc_author = stringOf (get ''author''),
                     insc_content = stringOf (get ''content''),
                     insc_isInternal = optionalStringOf (get ''isInternal'')\<rparr>
              else Inl errs)
      | _ \<Rightarrow> Inl [InvalidType [] ''object'' (parsedType (Some body))])"

section \<open>The request handlers (server/routes.ts)\<close>

text \<open>
  A handler takes the store, what \<^verbatim>\<open>randomUUID()\<close> and \<^verbatim>\<open>new Date()\<close>
  would return, the path parameter and the body; it returns the response, the store
  afterwards and the calls it made on the storage interface, in order. The handlers are
  written against \<^verbatim>\<open>IStorage\<close>; here the interface is realised by
  \<^verbatim>\<open>MemStorage\<close>, whose operations never throw, so the only exception a handler
  catches is the \<^verbatim>\<open>ZodError\<close> of \<^verbatim>\<open>parse\<close>, an \<^verbatim>\<open>Error\<close>,
  answered with 400 and its message.
\<close>

datatype payload =
    Message string
  | ZodMessage "zod_issue list"
  | IssueJson issue
  | CommentJson comment

datatype storageCall =
    GetIssue string
  | CreateIssue insertIssue
  | UpdateIssue string partialInsertIssue
  | CreateComment insertComment

record handled =
  statusCode :: nat
  jsonBody :: payload
  store :: memStorage
  calls :: "storageCall list"

text \<open>\<^verbatim>\<open>app.post('/api/issues', ...)\<close>\<close>

definition postIssue :: "memStorage \<Rightarrow> string \<Rightarrow> timestamp \<Rightarrow> json \<Rightarrow> handled" where
  "postIssue s uuid now body =
     (case insertIssueSchema_parse body of
        Inl errs \<Rightarrow> \<lparr>statusCode = 400, jsonBody = ZodMessage errs, store = s, calls = []\<rparr>
      | Inr validatedData \<Rightarrow>
          (case createIssue s uuid now validatedData of
             (issue, s') \<Rightarrow>
               \<lparr>statusCode = 201, jsonBody = IssueJson issue, store = s',
                calls = [CreateIssue validatedData]\<rparr>))"

text \<open>
  \<^verbatim>\<open>app.patch('/api/issues/:id', ...)\<close>: the body goes to \<^verbatim>\<open>updateIssue\<close>
  as it is, without a \<^verbatim>\<open>parse\<close>; the model takes it at the declared type of
  that parameter, \<^verbatim>\<open>Partial<InsertIssue>\<close>.
\<close>

definition patchIssue :: "memStorage \<Rightarrow> timestamp \<Rightarrow> string \<Rightarrow> partialInsertIssue \<Rightarrow> handled" where
  "patchIssue s now k updates =
     (case updateIssue s now k updates of
        (None, s') \<Rightarrow>
          \<lparr>statusCode = 404, jsonBody = Message ''Issue not found'', store = s',
           calls = [UpdateIssue k updates]\<rparr>
      | (Some issue, s') \<Rightarrow>
          \<lparr>statusCode = 200, jsonBody = IssueJson issue, store = s',
           calls = [UpdateIssue k updates]\<rparr>)"

text \<open>\<^verbatim>\<open>app.post('/api/issues/:id/comments', ...)\<close>\<close>

definition postComment :: "memStorage \<Rightarrow> string \<Rightarrow> timestamp \<Rightarrow> string \<Rightarrow> json \<Rightarrow> handled" where
  "postComment s uuid now k body =
     (case getIssue s k of
        None \<Rightarrow>
          \<lparr>statusCode = 404, jsonBody = Message ''Issue not found'', store = s,
           calls = [GetIssue k]\<rparr>
      | Some issue \<Rightarrow>
          (let commentData = JObj (AList.update ''issueId'' (JStr k) (own_props body)) in
           case insertCommentSchema_parse commentData of
             Inl errs \<Rightarrow>
               \<lparr>statusCode = 400, jsonBody = ZodMessage errs, store = s, calls = [GetIssue k]\<rparr>
           | Inr validatedData \<Rightarrow>
               (case createComment s uuid now validatedData of
                  (comment, s') \<Rightarrow>
                    \<lparr>statusCode = 201, jsonBody = CommentJson comment, store = s',
                     calls = [GetIssue k, CreateComment validatedData]\<rparr>)))"

section \<open>Histories of the store\<close>

text \<open>
  A history is a list of storage operations on issues, each with the time the clock
  showed when it ran; \<open>run\<close> applies them in order.
\<close>

datatype storageOp =
    OpCreate string insertIssue
  | OpUpdate string partialInsertIssue

fun applyOp :: "memStorage \<Rightarrow> timestamp \<Rightarrow> storageOp \<Rightarrow> memStorage" where
  "applyOp s now (OpCreate uuid ins) = snd (createIssue s uuid now ins)"
| "applyOp s now (OpUpdate k updates) = snd (updateIssue s now k updates)"

fun run :: "memStorage \<Rightarrow> (timestamp \<times> storageOp) list \<Rightarrow> memStorage" where
  "run s [] = s"
| "run s ((now, operation) # rest) = run (applyOp s now operation) rest"

text \<open>
  The invariant of the issues of a store at clock reading \<open>t\<close>: no issue was
  updated before it was created, and none after \<open>t\<close>.
\<close>

definition timestampsOk :: "timestamp \<Rightarrow> memStorage \<Rightarrow> bool" where
  "timestampsOk t s = list_all (\<lambda>i. createdAt i \<le> updatedAt i \<and> updatedAt i \<le> t) (map snd (issues s))"

section \<open>Example data\<close>

definition plainIssue :: insertIssue where
  "plainIssue =
     \<lparr>ins_title = ''Cannot log in'',
      ins_description = ''The login page rejects my password'',
      ins_customerName = ''Ada'',
      ins_customerEmail = ''ada@example.org'',
      ins_priority = None,
      ins_status = None,
      ins_assignedTo = None\<rparr>"

definition noUpdates :: partialInsertIssue where
  "noUpdates =
     \<lparr>upd_title = None, upd_description = None, upd_customerName = None,
      upd_customerEmail = None, upd_priority = None, upd_status = None,
      upd_assignedTo = None\<rparr>"

text \<open>Noon of day 9, one o'clock and noon of day 10 after the epoch, in UTC.\<close>

definition yesterdayNoon :: timestamp where
  "yesterdayNoon = 820800000"

definition todayOneAm :: timestamp where
  "todayOneAm = 867600000"

definition todayNoon :: timestamp where
  "todayNoon = 907200000"

text \<open>
  Bodies for \<^verbatim>\<open>POST /api/issues\<close>: one that submits the status resolved, one
  whose status and priority are outside the documented values, and one without a title
  and with a number as status.
\<close>

definition resolvedBody :: json where
  "resolvedBody =
     JObj [(''title'', JStr ''Printer on fire''),
           (''description'', JStr ''Smoke comes out of the printer''),
           (''customerName'', JStr ''Bob''),
           (''customerEmail'', JStr ''bob@example.org''),
           (''status'', JStr ''resolved'')]"

definition bogusBody :: json where
  "bogusBody =
     JObj [(''title'', JStr ''Printer on fire''),
           (''description'', JStr ''Smoke comes out of the printer''),
           (''customerName'', JStr ''Bob''),
           (''customerEmail'', JStr ''bob@example.org''),
           (''priority'', JStr ''whenever''),
           (''status'', JStr ''bogus'')]"

definition untitledBody :: json where
  "untitledBody =
     JObj [(''description'', JStr ''Smoke comes out of the printer''),
           (''customerName'', JStr ''Bob''),
           (''customerEmail'', JStr ''bob@example.org''),
           (''status'', JNum 3)]"

text \<open>A comment whose body names another issue than the path does.\<close>

definition commentBody :: json where
  "commentBody =
     JObj [(''issueId'', JStr ''other''), (''author'', JStr ''Team Member''),
           (''content'', JStr ''Looking into it''), (''isInternal'', JStr ''true'')]"

text \<open>
  Five issues: A stays open, B is in progress, C was resolved today, D was resolved
  yesterday, E is urgent and open.
\<close>

definition fiveOps :: "(timestamp \<times> storageOp) list" where
  "fiveOps =
     [(yesterdayNoon, OpCreate ''A'' plainIssue),
      (yesterdayNoon, OpCreate ''B'' plainIssue),
      (yesterdayNoon, OpCreate ''C'' plainIssue),
      (yesterdayNoon, OpCreate ''D'' plainIssue),
      (yesterdayNoon, OpCreate ''E'' (plainIssue\<lparr>ins_priority := Some ''urgent''\<rparr>)),
      (yesterdayNoon, OpUpdate ''B'' (noUpdates\<lparr>upd_status := Some ''in-progress''\<rparr>)),
      (yesterdayNoon, OpUpdate ''D'' (noUpdates\<lparr>upd_status := Some ''resolved''\<rparr>)),
      (todayOneAm, OpUpdate ''C'' (noUpdates\<lparr>upd_status := Some ''resolved''\<rparr>))]"

definition fiveIssues :: memStorage where
  "fiveIssues = run emptyStorage fiveOps"

section \<open>Statistics count the issues of the store\<close>







section \<open>Creating and updating issues\<close>

lemma update_fresh:
  "map_of al k = None \<Longrightarrow> AList.update k v al = al @ [(k, v)]"
  by (induction al) (auto split: if_splits)

text \<open>
  Claim C3. Whatever \<open>createIssue\<close> is given, the record it returns has status
  open when the input has no status, priority medium when it has no priority, and no
  assignee when it has no assignee. The record carries the identifier that was generated
  for it and the time of the call as created-at and as updated-at, and it is the record
  the store holds under that identifier afterwards. When the generated identifier is not
  in the store yet, the store afterwards is the store before with that one entry added at
  the end; in any case the other identifiers and the comments are untouched. The object
  that \<open>DatabaseStorage.createIssue\<close> hands to the database has the same three
  defaults.
\<close>

theorem createIssue_defaults:
  assumes "createIssue s uuid now ins = (r, s')"
  shows "(ins_status ins = None \<longrightarrow> status r = ''open'')
    \<and> (ins_priority ins = None \<longrightarrow> priority r = ''medium'')
    \<and> (ins_assignedTo ins = None \<longrightarrow> assignedTo r = None)
    \<and> iid r = uuid \<and> createdAt r = now \<and> updatedAt r = now
    \<and> getIssue s' uuid = Some r
    \<and> (getIssue s uuid = None \<longrightarrow> issues s' = issues s @ [(uuid, r)])
    \<and> (\<forall>k. k \<noteq> uuid \<longrightarrow> getIssue s' k = getIssue s k)
    \<and> comments s' = comments s
    \<and> (ins_status ins = None \<longrightarrow> fst (issueData ins) = ''open'')
    \<and> (ins_priority ins = None \<longrightarrow> fst (snd (issueData ins)) = ''medium'')
    \<and> (ins_assignedTo ins = None \<longrightarrow> snd (snd (issueData ins)) = None)"
proof -
  from assms have r: "r = fst (createIssue s uuid now ins)"
    and s': "s' = snd (createIssue s uuid now ins)" by simp_all
  have stored: "issues s' = AList.update uuid r (issues s)" and c: "comments s' = comments s"
    unfolding r s' by (simp_all add: createIssue_def Let_def)
  have fields: "iid r = uuid" "createdAt r = now" "updatedAt r = now"
    "status r = or_default (ins_status ins) ''open''"
    "priority r = or_default (ins_priority ins) ''medium''"
    "assignedTo r = or_null (ins_assignedTo ins)"
    unfolding r by (simp_all add: createIssue_def Let_def)
  have look: "getIssue s' uuid = Some r" "\<forall>k. k \<noteq> uuid \<longrightarrow> getIssue s' k = getIssue s k"
    by (simp_all add: getIssue_def stored update_conv')
  have fresh: "getIssue s uuid = None \<longrightarrow> issues s' = issues s @ [(uuid, r)]"
    by (simp add: getIssue_def stored update_fresh)
  show ?thesis
    using fields look fresh c by (simp add: or_default_def or_null_def issueData_def)
qed

theorem createIssue_defaults_witness:
  "status (fst (createIssue fiveIssues ''F'' todayNoon plainIssue)) = ''open''
   \<and> priority (fst (createIssue fiveIssues ''F'' todayNoon plainIssue)) = ''medium''
   \<and> assignedTo (fst (createIssue fiveIssues ''F'' todayNoon plainIssue)) = None
   \<and> issues (snd (createIssue fiveIssues ''F'' todayNoon plainIssue))
       = issues fiveIssues @ [(''F'', fst (createIssue fiveIssues ''F'' todayNoon plainIssue))]"
proof -
  have fresh: "getIssue fiveIssues ''F'' = None"
    by (simp add: getIssue_def fiveIssues_def fiveOps_def createIssue_def updateIssue_def
        emptyStorage_def Let_def)
  have absent: "ins_status plainIssue = None" "ins_priority plainIssue = None"
    "ins_assignedTo plainIssue = None"
    by (simp_all add: plainIssue_def)
  show ?thesis
    using createIssue_defaults [of fiveIssues "''F''" todayNoon plainIssue, OF surjective_pairing]
      fresh absent by simp
qed



text \<open>
  Claim C5. For an identifier that is not in the store, \<open>updateIssue\<close> returns
  nothing and the very same store, whatever the partial fields are, and the handler of
  \<open>PATCH /api/issues/:id\<close> answers 404 with the message "Issue not found" and
  leaves the store as it was.
\<close>

theorem updateIssue_unknown:
  assumes "getIssue s k = None"
  shows "updateIssue s now k u = (None, s)
    \<and> statusCode (patchIssue s now k u) = 404
    \<and> jsonBody (patchIssue s now k u) = Message ''Issue not found''
    \<and> store (patchIssue s now k u) = s"
  using assms by (simp add: getIssue_def updateIssue_def patchIssue_def)

theorem updateIssue_unknown_witness:
  "getIssue fiveIssues ''Z'' = None
   \<and> updateIssue fiveIssues todayNoon ''Z'' (noUpdates\<lparr>upd_status := Some ''resolved''\<rparr>)
       = (None, fiveIssues)
   \<and> statusCode (patchIssue fiveIssues todayNoon ''Z'' (noUpdates\<lparr>upd_status := Some ''resolved''\<rparr>)) = 404"
proof -
  have unknown: "getIssue fiveIssues ''Z'' = None"
    by (simp add: getIssue_def fiveIssues_def fiveOps_def createIssue_def updateIssue_def
        emptyStorage_def Let_def)
  from updateIssue_unknown [OF unknown] unknown show ?thesis by simp
qed

section \<open>Comments of an issue\<close>

text \<open>
  Claim C8. For every identifier \<open>x\<close> and every store,
  \<open>getCommentsByIssueId\<close> returns exactly the comments of the store whose owning
  issue identifier is \<open>x\<close>, each as often as the store holds it, none else, in
  ascending order of created-at.
\<close>

theorem getCommentsByIssueId_exact_sorted:
  "mset (getCommentsByIssueId s x) = filter_mset (\<lambda>c. issueId c = x) (mset (map snd (comments s)))
   \<and> set (getCommentsByIssueId s x) = {c. c \<in> snd ` set (comments s) \<and> issueId c = x}
   \<and> sorted (map commentCreatedAt (getCommentsByIssueId s x))"
  by (auto simp: getCommentsByIssueId_def)

section \<open>Timestamps along a history\<close>

lemma set_update_cases:
  "p \<in> set (AList.update k v al) \<Longrightarrow> p = (k, v) \<or> p \<in> set al"
  by (induction al) (auto split: if_splits)

lemma timestampsOk_iff:
  "timestampsOk t s \<longleftrightarrow> (\<forall>p \<in> set (issues s). createdAt (snd p) \<le> updatedAt (snd p) \<and> updatedAt (snd p) \<le> t)"
  by (simp add: timestampsOk_def list_all_iff)

lemma timestampsOk_createIssue:
  assumes "timestampsOk t s" and "t \<le> now"
  shows "timestampsOk now (snd (createIssue s uuid now ins))"
  unfolding timestampsOk_iff
proof
  fix p assume "p \<in> set (issues (snd (createIssue s uuid now ins)))"
  then have "p = (uuid, fst (createIssue s uuid now ins)) \<or> p \<in> set (issues s)"
    by (auto simp: createIssue_def Let_def dest: set_update_cases)
  then show "createdAt (snd p) \<le> updatedAt (snd p) \<and> updatedAt (snd p) \<le> now"
  proof
    assume "p = (uuid, fst (createIssue s uuid now ins))"
    then show ?thesis by (simp add: createIssue_def Let_def)
  next
    assume "p \<in> set (issues s)"
    with assms show ?thesis by (fastforce simp: timestampsOk_iff)
  qed
qed

lemma timestampsOk_updateIssue:
  assumes "timestampsOk t s" and "t \<le> now"
  shows "timestampsOk now (snd (updateIssue s now k u))"
proof (cases "map_of (issues s) k")
  case None
  then have "snd (updateIssue s now k u) = s" by (simp add: updateIssue_def)
  with assms show ?thesis by (fastforce simp: timestampsOk_iff)
next
  case (Some i)
  then have "(k, i) \<in> set (issues s)" by (rule map_of_SomeD)
  with assms have i: "createdAt i \<le> now" by (fastforce simp: timestampsOk_iff)
  show ?thesis unfolding timestampsOk_iff
  proof
    fix p assume "p \<in> set (issues (snd (updateIssue s now k u)))"
    then have "createdAt (snd p) = createdAt i \<and> updatedAt (snd p) = now \<or> p \<in> set (issues s)"
      using Some by (auto simp: updateIssue_def Let_def dest!: set_update_cases)
    then show "createdAt (snd p) \<le> updatedAt (snd p) \<and> updatedAt (snd p) \<le> now"
      using i assms by (fastforce simp: timestampsOk_iff)
  qed
qed

lemma timestampsOk_applyOp:
  "timestampsOk t s \<Longrightarrow> t \<le> now \<Longrightarrow> timestampsOk now (applyOp s now operation)"
  by (cases operation) (simp_all add: timestampsOk_createIssue timestampsOk_updateIssue)

lemma timestampsOk_run:
  "timestampsOk t s \<Longrightarrow> sorted (t # map fst ops) \<Longrightarrow> timestampsOk (last (t # map fst ops)) (run s ops)"
proof (induction ops arbitrary: s t)
  case Nil
  then show ?case by simp
next
  case (Cons a ops)
  obtain now operation where a: "a = (now, operation)" by (cases a)
  from Cons.prems a have "t \<le> now" and srt: "sorted (now # map fst ops)" by auto
  with Cons.prems(1) have "timestampsOk now (applyOp s now operation)"
    by (simp add: timestampsOk_applyOp)
  from Cons.IH [OF this srt] show ?case by (simp add: a)
qed



lemma timestampsOk_mono:
  "timestampsOk t s \<Longrightarrow> t \<le> b \<Longrightarrow> timestampsOk b s"
  by (fastforce simp: timestampsOk_iff)

lemma timestampsOk_history:
  assumes "sorted (map fst ops)" and "\<forall>t' \<in> set (map fst ops). t' \<le> b"
  shows "timestampsOk b (run emptyStorage ops)"
proof (cases ops)
  case Nil
  then show ?thesis by (simp add: timestampsOk_def emptyStorage_def)
next
  case (Cons a rest)
  obtain now operation where a: "a = (now, operation)" by (cases a)
  have "timestampsOk now emptyStorage" by (simp add: timestampsOk_def emptyStorage_def)
  moreover have "sorted (now # map fst ops)" using assms(1) Cons a by auto
  ultimately have "timestampsOk (last (now # map fst ops)) (run emptyStorage ops)"
    by (rule timestampsOk_run)
  moreover have "last (now # map fst ops) \<le> b"
    using assms(2) Cons by (metis last_ConsR last_in_set list.map_disc_iff list.distinct(1))
  ultimately show ?thesis by (rule timestampsOk_mono)
qed


text \<open>
  Every store that a history with a non-decreasing clock produces holds each identifier
  once and no timestamp later than the clock: the two conditions under which the
  statistics are stated.
\<close>

lemma distinct_applyOp:
  "distinct (map fst (issues s)) \<Longrightarrow> distinct (map fst (issues (applyOp s now operation)))"
  by (cases operation)
     (simp_all add: createIssue_def updateIssue_def Let_def distinct_update split: option.splits)

lemma distinct_run:
  "distinct (map fst (issues s)) \<Longrightarrow> distinct (map fst (issues (run s ops)))"
  by (induction ops arbitrary: s) (auto simp: distinct_applyOp)

lemma history_meets_stats_hypotheses:
  assumes "sorted (map fst ops)" and "\<forall>t' \<in> set (map fst ops). t' \<le> now"
  shows "distinct (map fst (issues (run emptyStorage ops)))"
    and "\<forall>i \<in> snd ` set (issues (run emptyStorage ops)). updatedAt i \<le> now"
proof -
  show "distinct (map fst (issues (run emptyStorage ops)))"
    by (rule distinct_run) (simp add: emptyStorage_def)
  from timestampsOk_history [OF assms]
  show "\<forall>i \<in> snd ` set (issues (run emptyStorage ops)). updatedAt i \<le> now"
    by (auto simp: timestampsOk_iff)
qed



section \<open>Appending a comment\<close>

lemma fiveIssues_keys: "map fst (issues fiveIssues) = [''A'', ''B'', ''C'', ''D'', ''E'']"
  by (simp add: fiveIssues_def fiveOps_def createIssue_def updateIssue_def emptyStorage_def Let_def)

lemma getIssue_keys: "getIssue s k = None \<longleftrightarrow> k \<notin> set (map fst (issues s))"
  by (simp add: getIssue_def map_of_eq_None_iff)

lemma postComment_cases:
  "postComment s uuid now k body =
     (case getIssue s k of
        None \<Rightarrow> \<lparr>statusCode = 404, jsonBody = Message ''Issue not found'', store = s, calls = [GetIssue k]\<rparr>
      | Some issue \<Rightarrow>
          (case insertCommentSchema_parse (JObj (AList.update ''issueId'' (JStr k) (own_props body))) of
             Inl errs \<Rightarrow> \<lparr>statusCode = 400, jsonBody = ZodMessage errs, store = s, calls = [GetIssue k]\<rparr>
           | Inr v \<Rightarrow>
               \<lparr>statusCode = 201, jsonBody = CommentJson (fst (createComment s uuid now v)),
                store = snd (createComment s uuid now v), calls = [GetIssue k, CreateComment v]\<rparr>))"
  by (simp add: postComment_def Let_def split: option.splits sum.splits prod.splits)

text \<open>
  Claim C6. When no issue has the identifier of the path,
  \<open>POST /api/issues/:id/comments\<close> answers 404 with the message "Issue not found",
  the store is as before, so no comment was created, and the one call on the storage
  interface is the lookup of the issue. For every request, the handler makes at most two
  calls on the storage interface, and either the store is as before or the answer is 201
  and the store is the one \<open>createComment\<close> returned for the validated body.
\<close>

theorem postComment_unknown_issue:
  assumes "getIssue s k = None"
  shows "statusCode (postComment s uuid now k body) = 404
    \<and> jsonBody (postComment s uuid now k body) = Message ''Issue not found''
    \<and> store (postComment s uuid now k body) = s
    \<and> calls (postComment s uuid now k body) = [GetIssue k]
    \<and> length (calls (postComment s0 uuid now k0 body)) \<le> 2
    \<and> (store (postComment s0 uuid now k0 body) = s0
        \<or> statusCode (postComment s0 uuid now k0 body) = 201
          \<and> (\<exists>v. calls (postComment s0 uuid now k0 body) = [GetIssue k0, CreateComment v]
                \<and> store (postComment s0 uuid now k0 body) = snd (createComment s0 uuid now v)
                \<and> jsonBody (postComment s0 uuid now k0 body) = CommentJson (fst (createComment s0 uuid now v))))"
proof -
  have "statusCode (postComment s uuid now k body) = 404
    \<and> jsonBody (postComment s uuid now k body) = Message ''Issue not found''
    \<and> store (postComment s uuid now k body) = s
    \<and> calls (postComment s uuid now k body) = [GetIssue k]"
    using assms by (simp add: postComment_cases)
  moreover have "length (calls (postComment s0 uuid now k0 body)) \<le> 2"
    by (simp add: postComment_cases split: option.splits sum.splits)
  moreover have "store (postComment s0 uuid now k0 body) = s0
        \<or> statusCode (postComment s0 uuid now k0 body) = 201
          \<and> (\<exists>v. calls (postComment s0 uuid now k0 body) = [GetIssue k0, CreateComment v]
                \<and> store (postComment s0 uuid now k0 body) = snd (createComment s0 uuid now v)
                \<and> jsonBody (postComment s0 uuid now k0 body) = CommentJson (fst (createComment s0 uuid now v)))"
    by (simp add: postComment_cases split: option.splits sum.splits)
  ultimately show ?thesis by blast
qed

theorem postComment_unknown_issue_witness:
  "getIssue fiveIssues ''Z'' = None
   \<and> statusCode (postComment fiveIssues ''c1'' todayNoon ''Z'' commentBody) = 404
   \<and> store (postComment fiveIssues ''c1'' todayNoon ''Z'' commentBody) = fiveIssues
   \<and> comments (store (postComment fiveIssues ''c1'' todayNoon ''Z'' commentBody)) = []"
proof -
  have unknown: "getIssue fiveIssues ''Z'' = None"
    by (simp add: getIssue_keys fiveIssues_keys)
  have "comments fiveIssues = []"
    by (simp add: fiveIssues_def fiveOps_def createIssue_def updateIssue_def emptyStorage_def Let_def)
  with postComment_unknown_issue [OF unknown, of "''c1''" todayNoon commentBody] unknown
  show ?thesis by simp
qed

lemma insertCommentSchema_issueId:
  assumes "insertCommentSchema_parse (JObj (AList.update ''issueId'' (JStr k) props)) = Inr v"
  shows "insc_issueId v = k"
  using assms
  by (auto simp: insertCommentSchema_parse_def Let_def update_conv' split: if_splits)

text \<open>
  Claim C10. When the issue of the path exists and \<open>POST /api/issues/:id/comments\<close>
  answers 201, the answer is the comment the store now holds under the generated
  identifier, and the owning issue identifier of that comment is the identifier of the
  path; every comment of the store afterwards was there before or belongs to the issue
  of the path. An \<open>issueId\<close> of the body has no influence at all: setting it to
  any value gives the same outcome.
\<close>

theorem postComment_issueId_from_path:
  assumes "getIssue s k = Some i"
  shows "(statusCode (postComment s uuid now k body) = 201 \<longrightarrow>
           (\<exists>c. jsonBody (postComment s uuid now k body) = CommentJson c
              \<and> map_of (comments (store (postComment s uuid now k body))) uuid = Some c))
    \<and> (\<forall>c. jsonBody (postComment s uuid now k body) = CommentJson c \<longrightarrow> issueId c = k)
    \<and> (\<forall>c \<in> snd ` set (comments (store (postComment s uuid now k body))).
          c \<in> snd ` set (comments s) \<or> issueId c = k)
    \<and> postComment s uuid now k (JObj (AList.update ''issueId'' j kvs))
        = postComment s uuid now k (JObj kvs)"
proof -
  let ?data = "JObj (AList.update ''issueId'' (JStr k) (own_props body))"
  show ?thesis
  proof (cases "insertCommentSchema_parse ?data")
    case (Inl errs)
    then show ?thesis using assms by (simp add: postComment_cases)
  next
    case (Inr v)
    then have "insc_issueId v = k" by (rule insertCommentSchema_issueId)
    then show ?thesis using assms Inr
      by (auto simp: postComment_cases createComment_def Let_def update_conv' dest!: set_update_cases)
  qed
qed


theorem postComment_issueId_from_path_witness:
  "(\<exists>i. getIssue fiveIssues ''A'' = Some i)
   \<and> statusCode (postComment fiveIssues ''c1'' todayNoon ''A'' commentBody) = 201
   \<and> (\<exists>c. jsonBody (postComment fiveIssues ''c1'' todayNoon ''A'' commentBody) = CommentJson c
         \<and> issueId c = ''A''
         \<and> map_of (comments (store (postComment fiveIssues ''c1'' todayNoon ''A'' commentBody))) ''c1'' = Some c)"
proof -
  have "getIssue fiveIssues ''A'' \<noteq> None"
    by (simp add: getIssue_keys fiveIssues_keys)
  then obtain i where i: "getIssue fiveIssues ''A'' = Some i" by blast
  have created: "statusCode (postComment fiveIssues ''c1'' todayNoon ''A'' commentBody) = 201"
    by (simp add: postComment_cases i commentBody_def insertCommentSchema_parse_def
        zString_def zStringOptional_def Let_def)
  note c = postComment_issueId_from_path [OF i, of "''c1''" todayNoon commentBody]
  from c created obtain c where
    "jsonBody (postComment fiveIssues ''c1'' todayNoon ''A'' commentBody) = CommentJson c"
    "map_of (comments (store (postComment fiveIssues ''c1'' todayNoon ''A'' commentBody))) ''c1'' = Some c"
    by blast
  moreover from this c have "issueId c = ''A''" by blast
  ultimately show ?thesis using i created by blast
qed

section \<open>Validation of request bodies\<close>

lemma postIssue_cases:
  "postIssue s uuid now body =
     (case insertIssueSchema_parse body of
        Inl errs \<Rightarrow> \<lparr>statusCode = 400, jsonBody = ZodMessage errs, store = s, calls = []\<rparr>
      | Inr v \<Rightarrow>
          \<lparr>statusCode = 201, jsonBody = IssueJson (fst (createIssue s uuid now v)),
           store = snd (createIssue s uuid now v), calls = [CreateIssue v]\<rparr>)"
  by (simp add: postIssue_def split: sum.splits prod.splits)

lemma zString_iff: "zString key v = [] \<longleftrightarrow> isString v"
  by (cases v rule: isString.cases) (simp_all add: zString_def)

lemma zStringOptional_iff: "zStringOptional key v = [] \<longleftrightarrow> v = None \<or> isString v"
  by (cases v) (simp_all add: zStringOptional_def zString_iff)

lemma zStringNullableOptional_iff:
  "zStringNullableOptional key v = [] \<longleftrightarrow> v = None \<or> isNull v \<or> isString v"
  by (cases v rule: isNull.cases) (simp_all add: zStringNullableOptional_def zString_iff)

lemma insertIssueSchema_parse_Inr:
  "insertIssueSchema_parse body = Inr v \<longleftrightarrow>
     (\<exists>kvs. body = JObj kvs
        \<and> isString (map_of kvs ''title'') \<and> isString (map_of kvs ''description'')
        \<and> isString (map_of kvs ''customerName'') \<and> isString (map_of kvs ''customerEmail'')
        \<and> (map_of kvs ''priority'' = None \<or> isString (map_of kvs ''priority''))
        \<and> (map_of kvs ''status'' = None \<or> isString (map_of kvs ''status''))
        \<and> (map_of kvs ''assignedTo'' = None \<or> isNull (map_of kvs ''assignedTo'')
             \<or> isString (map_of kvs ''assignedTo''))
        \<and> v = \<lparr>ins_title = stringOf (map_of kvs ''title''),
                 ins_description = stringOf (map_of kvs ''description''),
                 ins_customerName = stringOf (map_of kvs ''customerName''),
                 ins_customerEmail = stringOf (map_of kvs ''customerEmail''),
                 ins_priority = optionalStringOf (map_of kvs ''priority''),
                 ins_status = optionalStringOf (map_of kvs ''status''),
                 ins_assignedTo = nullableOptionalStringOf (map_of kvs ''assignedTo'')\<rparr>)"
  by (cases body)
     (auto simp: insertIssueSchema_parse_def Let_def zString_iff zStringOptional_iff
        zStringNullableOptional_iff)

lemma insertIssueSchema_parse_Inl:
  "insertIssueSchema_parse body = Inl errs \<Longrightarrow> errs \<noteq> []"
  by (cases body) (auto simp: insertIssueSchema_parse_def Let_def split: if_splits)


lemma insertCommentSchema_parse_Inr:
  "insertCommentSchema_parse body = Inr v \<longleftrightarrow>
     (\<exists>kvs. body = JObj kvs
        \<and> isString (map_of kvs ''issueId'') \<and> isString (map_of kvs ''author'')
        \<and> isString (map_of kvs ''content'')
        \<and> (map_of kvs ''isInternal'' = None \<or> isString (map_of kvs ''isInternal''))
        \<and> v = \<lparr>insc_issueId = stringOf (map_of kvs ''issueId''),
                 insc_author = stringOf (map_of kvs ''author''),
                 insc_content = stringOf (map_of kvs ''content''),
                 insc_isInternal = optionalStringOf (map_of kvs ''isInternal'')\<rparr>)"
  by (cases body)
     (auto simp: insertCommentSchema_parse_def Let_def zString_iff zStringOptional_iff)

lemma insertCommentSchema_parse_Inl:
  "insertCommentSchema_parse body = Inl errs \<Longrightarrow> errs \<noteq> []"
  by (cases body) (auto simp: insertCommentSchema_parse_def Let_def split: if_splits)

text \<open>
  Claim C2, as stated: every issue created through \<open>POST /api/issues\<close> has the
  status open, also when the body submits another status. It fails: a body that
  submits the status resolved is answered 201 with an issue whose status is resolved,
  and that is the issue the store holds.
\<close>

theorem postIssue_status_not_forced:
  "statusCode (postIssue emptyStorage ''u1'' todayNoon resolvedBody) = 201
   \<and> jsonBody (postIssue emptyStorage ''u1'' todayNoon resolvedBody)
       = IssueJson \<lparr>iid = ''u1'', title = ''Printer on fire'',
           description = ''Smoke comes out of the printer'', customerName = ''Bob'',
           customerEmail = ''bob@example.org'', priority = ''medium'', status = ''resolved'',
           assignedTo = None, createdAt = todayNoon, updatedAt = todayNoon\<rparr>
   \<and> map (\<lambda>p. (fst p, status (snd p))) (issues (store (postIssue emptyStorage ''u1'' todayNoon resolvedBody)))
       = [(''u1'', ''resolved'')]"
  by (simp add: postIssue_cases resolvedBody_def insertIssueSchema_parse_def Let_def
      zString_def zStringOptional_def zStringNullableOptional_def createIssue_def
      emptyStorage_def or_default_def or_null_def)

text \<open>
  Claim C2, amended. For every issue created through \<open>POST /api/issues\<close> (the
  answer is 201), the body is an object, the returned record is the stored one, and its
  status is open when the body has no status or the empty string as status, and the
  submitted status otherwise; in the same way its priority is medium when the body has
  no priority or the empty string, and the submitted priority otherwise.
\<close>

theorem postIssue_status_default:
  assumes "statusCode (postIssue s uuid now body) = 201"
  shows "\<exists>kvs i. body = JObj kvs
    \<and> jsonBody (postIssue s uuid now body) = IssueJson i
    \<and> getIssue (store (postIssue s uuid now body)) uuid = Some i
    \<and> (map_of kvs ''status'' = None \<or> map_of kvs ''status'' = Some (JStr []) \<longrightarrow> status i = ''open'')
    \<and> (\<forall>st. map_of kvs ''status'' = Some (JStr st) \<and> st \<noteq> [] \<longrightarrow> status i = st)
    \<and> (map_of kvs ''priority'' = None \<or> map_of kvs ''priority'' = Some (JStr []) \<longrightarrow> priority i = ''medium'')
    \<and> (\<forall>pr. map_of kvs ''priority'' = Some (JStr pr) \<and> pr \<noteq> [] \<longrightarrow> priority i = pr)"
proof -
  from assms obtain v where v: "insertIssueSchema_parse body = Inr v"
    by (auto simp: postIssue_cases split: sum.splits)
  then obtain kvs where body: "body = JObj kvs"
    and st: "ins_status v = optionalStringOf (map_of kvs ''status'')"
    and pr: "ins_priority v = optionalStringOf (map_of kvs ''priority'')"
    unfolding insertIssueSchema_parse_Inr by auto
  let ?i = "fst (createIssue s uuid now v)"
  have "jsonBody (postIssue s uuid now body) = IssueJson ?i"
    and "getIssue (store (postIssue s uuid now body)) uuid = Some ?i"
    by (simp_all add: postIssue_cases v getIssue_def createIssue_def Let_def update_conv')
  moreover have "status ?i = or_default (optionalStringOf (map_of kvs ''status'')) ''open''"
    and "priority ?i = or_default (optionalStringOf (map_of kvs ''priority'')) ''medium''"
    by (simp_all add: createIssue_def Let_def st pr)
  ultimately show ?thesis
    using body by (auto simp: or_default_def)
qed

theorem postIssue_status_default_witness:
  "statusCode (postIssue emptyStorage ''u1'' todayNoon resolvedBody) = 201
   \<and> (\<exists>i. getIssue (store (postIssue emptyStorage ''u1'' todayNoon resolvedBody)) ''u1'' = Some i
         \<and> status i = ''resolved'' \<and> priority i = ''medium'')"
proof -
  have created: "statusCode (postIssue emptyStorage ''u1'' todayNoon resolvedBody) = 201"
    by (simp add: postIssue_cases resolvedBody_def insertIssueSchema_parse_def Let_def
        zString_def zStringOptional_def zStringNullableOptional_def)
  from postIssue_status_default [OF created] created show ?thesis
    by (auto simp: resolvedBody_def)
qed

text \<open>
  Claim C7, as stated: every endpoint with a body validates it, enum membership of
  status and priority included, before any call on the storage interface, and rejects
  an invalid body with 400. It fails: issue creation accepts a status and a priority
  outside the documented values and stores them; the partial update stores such a
  status and answers 200; comment creation has already looked the issue up when it
  rejects an empty body.
\<close>

theorem validation_not_everywhere:
  "statusCode (postIssue emptyStorage ''u1'' todayNoon bogusBody) = 201
   \<and> map (\<lambda>p. (status (snd p), priority (snd p)))
         (issues (store (postIssue emptyStorage ''u1'' todayNoon bogusBody)))
       = [(''bogus'', ''whenever'')]
   \<and> statusCode (patchIssue fiveIssues todayNoon ''A'' (noUpdates\<lparr>upd_status := Some ''bogus''\<rparr>)) = 200
   \<and> map_option status
         (getIssue (store (patchIssue fiveIssues todayNoon ''A'' (noUpdates\<lparr>upd_status := Some ''bogus''\<rparr>))) ''A'')
       = Some ''bogus''
   \<and> statusCode (postComment fiveIssues ''c1'' todayNoon ''A'' (JObj [])) = 400
   \<and> calls (postComment fiveIssues ''c1'' todayNoon ''A'' (JObj [])) = [GetIssue ''A'']"
proof -
  have "getIssue fiveIssues ''A'' \<noteq> None"
    by (simp add: getIssue_keys fiveIssues_keys)
  then obtain i where i: "getIssue fiveIssues ''A'' = Some i" by blast
  have post: "statusCode (postIssue emptyStorage ''u1'' todayNoon bogusBody) = 201
     \<and> map (\<lambda>p. (status (snd p), priority (snd p)))
         (issues (store (postIssue emptyStorage ''u1'' todayNoon bogusBody)))
       = [(''bogus'', ''whenever'')]"
    by (simp add: postIssue_cases bogusBody_def insertIssueSchema_parse_def Let_def
        zString_def zStringOptional_def zStringNullableOptional_def createIssue_def
        emptyStorage_def or_default_def or_null_def)
  have patch: "statusCode (patchIssue fiveIssues todayNoon ''A'' (noUpdates\<lparr>upd_status := Some ''bogus''\<rparr>)) = 200
     \<and> map_option status
         (getIssue (store (patchIssue fiveIssues todayNoon ''A'' (noUpdates\<lparr>upd_status := Some ''bogus''\<rparr>))) ''A'')
       = Some ''bogus''"
    using i by (simp add: patchIssue_def updateIssue_def getIssue_def Let_def update_conv'
        spread_key_def noUpdates_def)
  have comment: "statusCode (postComment fiveIssues ''c1'' todayNoon ''A'' (JObj [])) = 400
     \<and> calls (postComment fiveIssues ''c1'' todayNoon ''A'' (JObj [])) = [GetIssue ''A'']"
    using i by (simp add: postComment_cases insertCommentSchema_parse_def Let_def zString_def
        zStringOptional_def)
  from post patch comment show ?thesis by simp
qed

text \<open>
  Claim C7, amended. The two creating endpoints validate the body against the insert
  schema before they call the creating storage operation. A body of
  \<open>POST /api/issues\<close> is valid exactly when it is an object whose title,
  description, customerName and customerEmail hold strings, whose priority and status
  are absent or hold strings, and whose assignedTo is absent, null or a string; a
  comment is valid exactly when issueId, author and content hold strings and isInternal
  is absent or a string. On a validation failure the answer is 400 with the non-empty
  list of validation issues as message, the store is as before, and the storage
  interface was not called at all (issue creation) or only for the lookup of the parent
  issue (comment creation). On success the answer is 201 and the creating operation is
  called with the validated fields. Defaults are not part of the validation.
\<close>

theorem creation_validates:
  "(\<forall>errs. insertIssueSchema_parse body = Inl errs \<longrightarrow>
       postIssue s uuid now body
         = \<lparr>statusCode = 400, jsonBody = ZodMessage errs, store = s, calls = []\<rparr>
       \<and> errs \<noteq> [])
   \<and> (\<forall>v. insertIssueSchema_parse body = Inr v \<longrightarrow>
       statusCode (postIssue s uuid now body) = 201
       \<and> calls (postIssue s uuid now body) = [CreateIssue v])
   \<and> (\<forall>i errs. getIssue s k = Some i
         \<and> insertCommentSchema_parse (JObj (AList.update ''issueId'' (JStr k) (own_props body))) = Inl errs \<longrightarrow>
       postComment s uuid now k body
         = \<lparr>statusCode = 400, jsonBody = ZodMessage errs, store = s, calls = [GetIssue k]\<rparr>
       \<and> errs \<noteq> [])
   \<and> (\<forall>i v. getIssue s k = Some i
         \<and> insertCommentSchema_parse (JObj (AList.update ''issueId'' (JStr k) (own_props body))) = Inr v \<longrightarrow>
       statusCode (postComment s uuid now k body) = 201
       \<and> calls (postComment s uuid now k body) = [GetIssue k, CreateComment v])
   \<and> ((\<exists>v. insertIssueSchema_parse body = Inr v) \<longleftrightarrow>
        (\<exists>kvs. body = JObj kvs
           \<and> isString (map_of kvs ''title'') \<and> isString (map_of kvs ''description'')
           \<and> isString (map_of kvs ''customerName'') \<and> isString (map_of kvs ''customerEmail'')
           \<and> (map_of kvs ''priority'' = None \<or> isString (map_of kvs ''priority''))
           \<and> (map_of kvs ''status'' = None \<or> isString (map_of kvs ''status''))
           \<and> (map_of kvs ''assignedTo'' = None \<or> isNull (map_of kvs ''assignedTo'')
                \<or> isString (map_of kvs ''assignedTo''))))
   \<and> ((\<exists>v. insertCommentSchema_parse body = Inr v) \<longleftrightarrow>
        (\<exists>kvs. body = JObj kvs
           \<and> isString (map_of kvs ''issueId'') \<and> isString (map_of kvs ''author'')
           \<and> isString (map_of kvs ''content'')
           \<and> (map_of kvs ''isInternal'' = None \<or> isString (map_of kvs ''isInternal''))))"
proof (intro conjI allI impI)
  show "(\<exists>v. insertIssueSchema_parse body = Inr v) \<longleftrightarrow>
        (\<exists>kvs. body = JObj kvs
           \<and> isString (map_of kvs ''title'') \<and> isString (map_of kvs ''description'')
           \<and> isString (map_of kvs ''customerName'') \<and> isString (map_of kvs ''customerEmail'')
           \<and> (map_of kvs ''priority'' = None \<or> isString (map_of kvs ''priority''))
           \<and> (map_of kvs ''status'' = None \<or> isString (map_of kvs ''status''))
           \<and> (map_of kvs ''assignedTo'' = None \<or> isNull (map_of kvs ''assignedTo'')
                \<or> isString (map_of kvs ''assignedTo'')))"
    unfolding insertIssueSchema_parse_Inr by blast
  show "(\<exists>v. insertCommentSchema_parse body = Inr v) \<longleftrightarrow>
        (\<exists>kvs. body = JObj kvs
           \<and> isString (map_of kvs ''issueId'') \<and> isString (map_of kvs ''author'')
           \<and> isString (map_of kvs ''content'')
           \<and> (map_of kvs ''isInternal'' = None \<or> isString (map_of kvs ''isInternal'')))"
    unfolding insertCommentSchema_parse_Inr by blast
qed (auto simp: postIssue_cases postComment_cases
      dest: insertIssueSchema_parse_Inl insertCommentSchema_parse_Inl)

theorem creation_validates_witness:
  "insertIssueSchema_parse untitledBody
     = Inl [InvalidType [''title''] ''string'' ''undefined'', InvalidType [''status''] ''string'' ''number'']
   \<and> postIssue fiveIssues ''u1'' todayNoon untitledBody
     = \<lparr>statusCode = 400,
        jsonBody = ZodMessage [InvalidType [''title''] ''string'' ''undefined'',
                               InvalidType [''status''] ''string'' ''number''],
        store = fiveIssues, calls = []\<rparr>"
proof -
  have invalid: "insertIssueSchema_parse untitledBody
     = Inl [InvalidType [''title''] ''string'' ''undefined'', InvalidType [''status''] ''string'' ''number'']"
    by (simp add: untitledBody_def insertIssueSchema_parse_def Let_def
        zString_def zStringOptional_def zStringNullableOptional_def)
  from creation_validates [of untitledBody fiveIssues "''u1''" todayNoon] invalid
  show ?thesis by blast
qed

end
